theory Spec2Isabelle
  imports Main "HOL-Library.Sublist"
begin

section \<open>Container removal in \<open>core/container_remove.go\<close>\<close>

text \<open>
  A shallow embedding of \<^verbatim>\<open>src/core/container_remove.go\<close>. A method with the
  receiver \<^verbatim>\<open>ds *dockerService\<close> is a function that takes the state of the service
  and returns its result together with the state afterwards. The reader/writer lock
  \<^verbatim>\<open>cleanupInfosLock\<close> is taken and released inside each registry method; in a
  sequential run that pair leaves the lock as it found it, and it is not part of the
  state here.
\<close>

subsection \<open>Data\<close>

text \<open>
  A Go \<^verbatim>\<open>error\<close> that is not nil, by the text its \<^verbatim>\<open>Error()\<close> method returns. A
  result of type \<^verbatim>\<open>error\<close> is an \<open>error option\<close> (\<open>None\<close> is Go's nil), a result of
  type \<^verbatim>\<open>[]error\<close> an \<open>error list\<close> (the nil slice and the empty slice both have
  length 0 and are both \<open>[]\<close>).
\<close>

datatype error = Error (Error_msg: string)

text \<open>
  \<^verbatim>\<open>type containerCleanupInfo struct{}\<close> has no field, so a value of type
  \<^verbatim>\<open>*containerCleanupInfo\<close> is either nil or the address of such a struct.
\<close>

datatype containerCleanupInfo_ptr = nil | Ptr nat

text \<open>
  The fields of \<^verbatim>\<open>types.ContainerRemoveOptions\<close> that the source sets; the type itself
  is declared by the Docker client library.
\<close>

record ContainerRemoveOptions =
  RemoveVolumes :: bool
  Force :: bool

text \<open>
  \<^verbatim>\<open>v1.RemoveContainerRequest\<close>, by the one field the code reads, and the empty
  \<^verbatim>\<open>v1.RemoveContainerResponse\<close>. The request \<^verbatim>\<open>r\<close> is a pointer that is not nil.
\<close>

record RemoveContainerRequest =
  ContainerId :: string

datatype RemoveContainerResponse = RemoveContainerResponse

text \<open>
  What the code does to the world outside the service, in the order it does it: the calls
  to the collaborators, each with its arguments, and the lines given to the logger.
\<close>

datatype event =
    CallRemoveContainerLogSymlink string
  | CallPlatformCleanup containerCleanupInfo_ptr
  | LogInfof string
  | CallClientRemoveContainer string ContainerRemoveOptions

text \<open>
  The state of a \<^verbatim>\<open>dockerService\<close>: the map \<^verbatim>\<open>containerCleanupInfos\<close> (allocated when
  the service is constructed, outside this file), the state \<open>world\<close> of everything the
  collaborators act on (file system, Docker daemon), and the events so far.
\<close>

record 'w dockerService =
  containerCleanupInfos :: "string \<rightharpoonup> containerCleanupInfo_ptr"
  world :: 'w
  trace :: "event list"

text \<open>
  The code this file calls and does not define, and the body that differs from platform to
  platform. Each acts on the outside world only.
  \<^item> \<open>logSymlinkRemover\<close>: the body of \<^verbatim>\<open>ds.removeContainerLogSymlink\<close>;
  \<^item> \<open>platformCleanup\<close>: the body of \<^verbatim>\<open>ds.performPlatformSpecificContainerCleanup\<close>. The
    body in this file is \<open>noPlatformCleanup\<close> below, which returns no error and changes
    nothing; a property stated for every \<open>platformCleanup\<close> holds for it;
  \<^item> \<open>backendRemoveContainer\<close>: the body of \<^verbatim>\<open>ds.client.RemoveContainer\<close>;
  \<^item> \<open>quote\<close>: what the verb \<^verbatim>\<open>%q\<close> of package \<^verbatim>\<open>fmt\<close> prints for a string.
\<close>

record 'w collaborators =
  logSymlinkRemover :: "string \<Rightarrow> 'w \<Rightarrow> error option \<times> 'w"
  platformCleanup :: "containerCleanupInfo_ptr \<Rightarrow> 'w \<Rightarrow> error list \<times> 'w"
  backendRemoveContainer :: "string \<Rightarrow> ContainerRemoveOptions \<Rightarrow> 'w \<Rightarrow> error option \<times> 'w"
  quote :: "string \<Rightarrow> string"

subsection \<open>The cleanup registry\<close>

text \<open>
  \<^verbatim>\<open>info, ok := ds.containerCleanupInfos[containerID]\<close>: a key that is not in the map
  gives the zero value of the element type, the nil pointer, and \<^verbatim>\<open>false\<close>.
\<close>

definition getContainerCleanupInfo ::
  "'w dockerService \<Rightarrow> string \<Rightarrow> (containerCleanupInfo_ptr \<times> bool) \<times> 'w dockerService" where
  "getContainerCleanupInfo ds containerID =
     (case containerCleanupInfos ds containerID of
        Some info \<Rightarrow> ((info, True), ds)
      | None \<Rightarrow> ((nil, False), ds))"

definition setContainerCleanupInfo ::
  "'w dockerService \<Rightarrow> string \<Rightarrow> containerCleanupInfo_ptr \<Rightarrow> 'w dockerService" where
  "setContainerCleanupInfo ds containerID info =
     ds\<lparr>containerCleanupInfos := (containerCleanupInfos ds)(containerID \<mapsto> info)\<rparr>"

definition clearContainerCleanupInfo :: "'w dockerService \<Rightarrow> string \<Rightarrow> 'w dockerService" where
  "clearContainerCleanupInfo ds containerID =
     ds\<lparr>containerCleanupInfos := (containerCleanupInfos ds)(containerID := None)\<rparr>"

subsection \<open>Formatting\<close>

text \<open>
  The verb \<^verbatim>\<open>%v\<close> prints an error by its \<^verbatim>\<open>Error()\<close> text, and a slice as its
  elements between square brackets, separated by one space.
\<close>

fun joinSpace :: "string list \<Rightarrow> string" where
  "joinSpace [] = []"
| "joinSpace [s] = s"
| "joinSpace (s # t # ts) = s @ '' '' @ joinSpace (t # ts)"

definition fmt_v_errors :: "error list \<Rightarrow> string" where
  "fmt_v_errors errors = ''['' @ joinSpace (map Error_msg errors) @ '']''"

subsection \<open>Calls to the collaborators\<close>

text \<open>
  Each call site of a collaborator records the call and its arguments, then lets the
  collaborator act on the outside world.
\<close>

definition removeContainerLogSymlink ::
  "'w collaborators \<Rightarrow> 'w dockerService \<Rightarrow> string \<Rightarrow> error option \<times> 'w dockerService" where
  "removeContainerLogSymlink C ds containerID =
     (let (err, w) = logSymlinkRemover C containerID (world ds)
      in (err, ds\<lparr>world := w,
                    trace := trace ds @ [CallRemoveContainerLogSymlink containerID]\<rparr>))"

definition performPlatformSpecificContainerCleanup ::
  "'w collaborators \<Rightarrow> 'w dockerService \<Rightarrow> containerCleanupInfo_ptr
     \<Rightarrow> error list \<times> 'w dockerService" where
  "performPlatformSpecificContainerCleanup C ds cleanupInfo =
     (let (errors, w) = platformCleanup C cleanupInfo (world ds)
      in (errors, ds\<lparr>world := w, trace := trace ds @ [CallPlatformCleanup cleanupInfo]\<rparr>))"

definition client_RemoveContainer ::
  "'w collaborators \<Rightarrow> 'w dockerService \<Rightarrow> string \<Rightarrow> ContainerRemoveOptions
     \<Rightarrow> error option \<times> 'w dockerService" where
  "client_RemoveContainer C ds containerID opts =
     (let (err, w) = backendRemoveContainer C containerID opts (world ds)
      in (err, ds\<lparr>world := w,
                    trace := trace ds @ [CallClientRemoveContainer containerID opts]\<rparr>))"

text \<open>
  The body that \<^verbatim>\<open>performPlatformSpecificContainerCleanup\<close> has in this file: it never
  assigns its named result \<^verbatim>\<open>errors\<close> and returns the nil slice. With this body the
  cleanup step cannot return an error (\<open>forContainer_noPlatformCleanup\<close> below), and
  \<^verbatim>\<open>RemoveContainer\<close> cannot take the branch \<^verbatim>\<open>len(errors) != 0\<close>
  (\<open>RemoveContainer_noPlatformCleanup\<close> below).
\<close>

definition noPlatformCleanup :: "containerCleanupInfo_ptr \<Rightarrow> 'w \<Rightarrow> error list \<times> 'w" where
  "noPlatformCleanup cleanupInfo w = ([], w)"

subsection \<open>Platform-specific cleanup\<close>

text \<open>
  The loop \<^verbatim>\<open>for _, err := range errors { logrus.Infof(...) }\<close> of
  \<^verbatim>\<open>performPlatformSpecificContainerCleanupAndLogErrors\<close>.
\<close>

primrec logCleanupErrors :: "string \<Rightarrow> error list \<Rightarrow> 'w dockerService \<Rightarrow> 'w dockerService" where
  "logCleanupErrors containerNameOrID [] ds = ds"
| "logCleanupErrors containerNameOrID (err # errors) ds =
     logCleanupErrors containerNameOrID errors
       (ds\<lparr>trace := trace ds @
          [LogInfof (''Error when cleaning up after container '' @ containerNameOrID
                       @ '': '' @ Error_msg err)]\<rparr>)"

definition performPlatformSpecificContainerCleanupAndLogErrors ::
  "'w collaborators \<Rightarrow> 'w dockerService \<Rightarrow> string \<Rightarrow> containerCleanupInfo_ptr
     \<Rightarrow> error list \<times> 'w dockerService" where
  "performPlatformSpecificContainerCleanupAndLogErrors C ds containerNameOrID cleanupInfo =
     (if cleanupInfo = nil then ([], ds)
      else
        (let (errors, ds1) = performPlatformSpecificContainerCleanup C ds cleanupInfo;
             ds2 = logCleanupErrors containerNameOrID errors ds1
         in (errors, ds2)))"

definition performPlatformSpecificContainerForContainer ::
  "'w collaborators \<Rightarrow> 'w dockerService \<Rightarrow> string \<Rightarrow> error list \<times> 'w dockerService" where
  "performPlatformSpecificContainerForContainer C ds containerID =
     (let ((cleanupInfo, present), ds0) = getContainerCleanupInfo ds containerID
      in if present then
           (let (errors, ds1) =
                  performPlatformSpecificContainerCleanupAndLogErrors C ds0 containerID cleanupInfo
            in if length errors = 0 then (errors, clearContainerCleanupInfo ds1 containerID)
               else (errors, ds1))
         else ([], ds0))"

subsection \<open>Properties of \<^verbatim>\<open>RemoveContainer\<close>\<close>

text \<open>
  The Go result \<^verbatim>\<open>(*v1.RemoveContainerResponse, error)\<close> is \<^verbatim>\<open>(nil, err)\<close> or
  \<^verbatim>\<open>(&v1.RemoveContainerResponse{}, nil)\<close>: a sum, \<open>Inl\<close> the error.
\<close>

definition RemoveContainer ::
  "'w collaborators \<Rightarrow> 'w dockerService \<Rightarrow> RemoveContainerRequest
     \<Rightarrow> (error + RemoveContainerResponse) \<times> 'w dockerService" where
  "RemoveContainer C ds r =
     (let (err, ds1) = removeContainerLogSymlink C ds (ContainerId r)
      in case err of
           Some e \<Rightarrow> (Inl e, ds1)
         | None \<Rightarrow>
            (let (errors, ds2) = performPlatformSpecificContainerForContainer C ds1 (ContainerId r)
             in if length errors \<noteq> 0 then
                  (Inl (Error (''failed to run platform-specific clean ups for container ''
                                 @ quote C (ContainerId r) @ '': '' @ fmt_v_errors errors)),
                   ds2)
                else
                  (let (err, ds3) =
                         client_RemoveContainer C ds2 (ContainerId r)
                           \<lparr>RemoveVolumes = True, Force = True\<rparr>
                   in case err of
                        Some e \<Rightarrow>
                          (Inl (Error (''failed to remove container '' @ quote C (ContainerId r)
                                         @ '': '' @ Error_msg e)),
                           ds3)
                      | None \<Rightarrow> (Inr RemoveContainerResponse, ds3))))"

subsection \<open>Counting calls\<close>

fun isPlatformCleanup :: "event \<Rightarrow> bool" where
  "isPlatformCleanup (CallPlatformCleanup cleanupInfo) = True"
| "isPlatformCleanup ev = False"

fun isClientRemoveContainer :: "event \<Rightarrow> bool" where
  "isClientRemoveContainer (CallClientRemoveContainer containerID opts) = True"
| "isClientRemoveContainer ev = False"

definition platformCleanups :: "event list \<Rightarrow> nat" where
  "platformCleanups tr = length (filter isPlatformCleanup tr)"

definition backendRemovals :: "event list \<Rightarrow> nat" where
  "backendRemovals tr = length (filter isClientRemoveContainer tr)"

subsection \<open>\<^verbatim>\<open>getContainerTimestamps\<close>\<close>

text \<open>
  The three timestamp strings of \<^verbatim>\<open>types.ContainerJSON\<close> that the function reads
  (\<^verbatim>\<open>r.Created\<close>, \<^verbatim>\<open>r.State.StartedAt\<close>, \<^verbatim>\<open>r.State.FinishedAt\<close>); the type is declared
  by the Docker client library. The pointers \<^verbatim>\<open>r\<close> and \<^verbatim>\<open>r.State\<close> are not nil.
\<close>

record ContainerState =
  StartedAt :: string
  FinishedAt :: string

record ContainerJSON =
  Created :: string
  State :: ContainerState

text \<open>
  \<^verbatim>\<open>libdocker.ParseDockerTimestamp\<close> is not in this file: it is the parameter
  \<open>ParseDockerTimestamp\<close>, a function from the string to a time and an error. \<open>zero\<close> is
  the zero value of \<^verbatim>\<open>time.Time\<close>, which the three variables hold until they are
  assigned. Beside the four results the embedding returns the strings given to the
  parser, in the order of the calls.
\<close>

definition getContainerTimestamps ::
  "(string \<Rightarrow> 't \<times> error option) \<Rightarrow> 't \<Rightarrow> ContainerJSON
     \<Rightarrow> ('t \<times> 't \<times> 't \<times> error option) \<times> string list" where
  "getContainerTimestamps ParseDockerTimestamp zero r =
     (let createdAt = zero; startedAt = zero; finishedAt = zero;
          (createdAt, err) = ParseDockerTimestamp (Created r);
          parsed = [Created r]
      in if err \<noteq> None then ((createdAt, startedAt, finishedAt, err), parsed)
         else
          (let (startedAt, err) = ParseDockerTimestamp (StartedAt (State r));
               parsed = parsed @ [StartedAt (State r)]
           in if err \<noteq> None then ((createdAt, startedAt, finishedAt, err), parsed)
              else
               (let (finishedAt, err) = ParseDockerTimestamp (FinishedAt (State r));
                    parsed = parsed @ [FinishedAt (State r)]
                in if err \<noteq> None then ((createdAt, startedAt, finishedAt, err), parsed)
                   else ((createdAt, startedAt, finishedAt, None), parsed))))"

subsection \<open>Collaborators and inputs for the examples\<close>

text \<open>
  Collaborators with fixed answers: the symlink remover, the platform cleanup and the
  backend return what they are given here and leave the outside world alone. \<open>goQuote\<close>
  is what \<^verbatim>\<open>%q\<close> prints for a string of printable ASCII characters without a double
  quote or a backslash: the string between double quotes.
\<close>

definition goQuote :: "string \<Rightarrow> string" where
  "goQuote s = CHR 0x22 # s @ [CHR 0x22]"

definition fixedCollaborators ::
  "error option \<Rightarrow> error list \<Rightarrow> error option \<Rightarrow> unit collaborators" where
  "fixedCollaborators symlinkErr cleanupErrors removeErr =
     \<lparr>logSymlinkRemover = (\<lambda>containerID w. (symlinkErr, w)),
      platformCleanup = (\<lambda>cleanupInfo w. (cleanupErrors, w)),
      backendRemoveContainer = (\<lambda>containerID opts w. (removeErr, w)),
      quote = goQuote\<rparr>"

text \<open>A service whose registry holds metadata for the one container \<open>id\<close>.\<close>

definition serviceWith :: "string \<Rightarrow> containerCleanupInfo_ptr \<Rightarrow> unit dockerService" where
  "serviceWith containerID info =
     \<lparr>containerCleanupInfos = [containerID \<mapsto> info], world = (), trace = []\<rparr>"

text \<open>
  A parser that accepts the one string \<open>good\<close>, as the time \<open>t\<close>, and rejects every other
  string with an error made from the string, as \<^verbatim>\<open>time.Parse\<close> does.
\<close>

definition parseOnly :: "string \<Rightarrow> nat \<Rightarrow> string \<Rightarrow> nat \<times> error option" where
  "parseOnly good t s =
     (if s = good then (t, None) else (0, Some (Error (''cannot parse '' @ goQuote s))))"

section \<open>Auxiliary facts\<close>

subsection \<open>The log loop and the events\<close>

lemma logCleanupErrors_registry:
  "containerCleanupInfos (logCleanupErrors n errors ds) = containerCleanupInfos ds"
  by (induction errors arbitrary: ds) simp_all

lemma logCleanupErrors_world:
  "world (logCleanupErrors n errors ds) = world ds"
  by (induction errors arbitrary: ds) simp_all

lemma logCleanupErrors_trace:
  "trace (logCleanupErrors n errors ds) =
     trace ds @ map (\<lambda>err. LogInfof (''Error when cleaning up after container '' @ n
                                      @ '': '' @ Error_msg err)) errors"
  by (induction errors arbitrary: ds) simp_all

lemma backendRemovals_append:
  "backendRemovals (xs @ ys) = backendRemovals xs + backendRemovals ys"
  by (simp add: backendRemovals_def)

lemma platformCleanups_append:
  "platformCleanups (xs @ ys) = platformCleanups xs + platformCleanups ys"
  by (simp add: platformCleanups_def)

lemma backendRemovals_logs:
  "backendRemovals (map (\<lambda>err. LogInfof (f err)) errors) = 0"
  by (induction errors) (simp_all add: backendRemovals_def)

subsection \<open>The cleanup step\<close>

lemma cleanupAndLog_registry:
  "containerCleanupInfos (snd (performPlatformSpecificContainerCleanupAndLogErrors C ds n info))
     = containerCleanupInfos ds"
  by (simp add: performPlatformSpecificContainerCleanupAndLogErrors_def
      performPlatformSpecificContainerCleanup_def logCleanupErrors_registry split: prod.splits)

lemma cleanupAndLog_backendRemovals:
  "backendRemovals (trace (snd (performPlatformSpecificContainerCleanupAndLogErrors C ds n info)))
     = backendRemovals (trace ds)"
  by (simp add: performPlatformSpecificContainerCleanupAndLogErrors_def
      performPlatformSpecificContainerCleanup_def logCleanupErrors_trace backendRemovals_append
      backendRemovals_logs split: prod.splits) (simp add: backendRemovals_def)

lemma cleanupAndLog_errors:
  "fst (performPlatformSpecificContainerCleanupAndLogErrors C ds n info)
     = (if info = nil then [] else fst (platformCleanup C info (world ds)))"
  by (simp add: performPlatformSpecificContainerCleanupAndLogErrors_def
      performPlatformSpecificContainerCleanup_def split: prod.splits)

lemma forContainer_present:
  assumes "containerCleanupInfos ds containerID = Some info"
    and "performPlatformSpecificContainerCleanupAndLogErrors C ds containerID info = (errors, ds1)"
  shows "performPlatformSpecificContainerForContainer C ds containerID =
           (errors, if errors = [] then clearContainerCleanupInfo ds1 containerID else ds1)"
  using assms
  by (simp add: performPlatformSpecificContainerForContainer_def getContainerCleanupInfo_def)

lemma forContainer_absent:
  assumes "containerCleanupInfos ds containerID = None"
  shows "performPlatformSpecificContainerForContainer C ds containerID = ([], ds)"
  using assms
  by (simp add: performPlatformSpecificContainerForContainer_def getContainerCleanupInfo_def)

lemma forContainer_backendRemovals:
  "backendRemovals (trace (snd (performPlatformSpecificContainerForContainer C ds containerID)))
     = backendRemovals (trace ds)"
proof (cases "containerCleanupInfos ds containerID")
  case None
  then show ?thesis
    by (simp add: performPlatformSpecificContainerForContainer_def getContainerCleanupInfo_def)
next
  case (Some info)
  obtain errors ds1 where
    r: "performPlatformSpecificContainerCleanupAndLogErrors C ds containerID info = (errors, ds1)"
    by (cases "performPlatformSpecificContainerCleanupAndLogErrors C ds containerID info")
  from cleanupAndLog_backendRemovals [of C ds containerID info] r
  have "backendRemovals (trace ds1) = backendRemovals (trace ds)" by simp
  with Some r show ?thesis
    by (simp add: performPlatformSpecificContainerForContainer_def getContainerCleanupInfo_def
        clearContainerCleanupInfo_def)
qed

text \<open>
  With the body this file gives the platform cleanup, the step never fails and always
  consumes the entry.
\<close>

lemma forContainer_noPlatformCleanup:
  "fst (performPlatformSpecificContainerForContainer
          (C\<lparr>platformCleanup := noPlatformCleanup\<rparr>) ds containerID) = []
   \<and> containerCleanupInfos
         (snd (performPlatformSpecificContainerForContainer
                 (C\<lparr>platformCleanup := noPlatformCleanup\<rparr>) ds containerID)) containerID
       = None"
  by (simp add: performPlatformSpecificContainerForContainer_def getContainerCleanupInfo_def
      performPlatformSpecificContainerCleanupAndLogErrors_def
      performPlatformSpecificContainerCleanup_def noPlatformCleanup_def
      clearContainerCleanupInfo_def split: option.splits)

subsection \<open>The symlink step and the backend call\<close>

lemma removeContainerLogSymlink_backendRemovals:
  "backendRemovals (trace (snd (removeContainerLogSymlink C ds containerID)))
     = backendRemovals (trace ds)"
  by (simp add: removeContainerLogSymlink_def backendRemovals_def split: prod.splits)

lemma client_RemoveContainer_state:
  "snd (client_RemoveContainer C ds containerID opts) =
     ds\<lparr>world := snd (backendRemoveContainer C containerID opts (world ds)),
         trace := trace ds @ [CallClientRemoveContainer containerID opts]\<rparr>"
  by (simp add: client_RemoveContainer_def split: prod.splits)

text \<open>
  With the body this file gives the platform cleanup, \<^verbatim>\<open>RemoveContainer\<close> never stops
  at the cleanup step: once the symlink is removed it calls the backend, and the registry
  holds no entry for the container afterwards.
\<close>

lemma RemoveContainer_noPlatformCleanup:
  assumes "platformCleanup C = noPlatformCleanup"
    and "fst (logSymlinkRemover C (ContainerId r) (world ds)) = None"
  shows "backendRemovals (trace (snd (RemoveContainer C ds r))) = Suc (backendRemovals (trace ds))
       \<and> containerCleanupInfos (snd (RemoveContainer C ds r)) (ContainerId r) = None"
proof -
  have "fst (removeContainerLogSymlink C ds (ContainerId r)) = None"
    using assms(2) by (auto simp add: removeContainerLogSymlink_def split: prod.splits)
  then obtain ds1 where s: "removeContainerLogSymlink C ds (ContainerId r) = (None, ds1)"
    by (cases "removeContainerLogSymlink C ds (ContainerId r)") simp
  obtain errors ds2 where
    p: "performPlatformSpecificContainerForContainer C ds1 (ContainerId r) = (errors, ds2)"
    by (cases "performPlatformSpecificContainerForContainer C ds1 (ContainerId r)")
  from assms(1) have c: "C\<lparr>platformCleanup := noPlatformCleanup\<rparr> = C"
    by (cases C) simp
  from forContainer_noPlatformCleanup [of C ds1 "ContainerId r"] p
  have e: "errors = []" and k: "containerCleanupInfos ds2 (ContainerId r) = None"
    by (simp_all add: c)
  from removeContainerLogSymlink_backendRemovals [of C ds "ContainerId r"] s
  have b1: "backendRemovals (trace ds1) = backendRemovals (trace ds)" by simp
  from forContainer_backendRemovals [of C ds1 "ContainerId r"] p
  have b2: "backendRemovals (trace ds2) = backendRemovals (trace ds1)" by simp
  have "snd (RemoveContainer C ds r) =
          snd (client_RemoveContainer C ds2 (ContainerId r) \<lparr>RemoveVolumes = True, Force = True\<rparr>)"
    using s p e by (simp add: RemoveContainer_def split: prod.splits option.splits)
  then show ?thesis
    using b1 b2 k by (simp add: client_RemoveContainer_state backendRemovals_def)
qed

subsection \<open>Timestamps\<close>

text \<open>
  For every parser: a string that the parser rejects gives the same error whether it
  stands in \<^verbatim>\<open>Created\<close> or, after a well-formed \<^verbatim>\<open>Created\<close>, in \<^verbatim>\<open>State.StartedAt\<close>.
\<close>

lemma getContainerTimestamps_same_error:
  assumes "snd (P bad) = Some e" and "snd (P good) = None"
  shows "snd (snd (snd (fst (getContainerTimestamps P zero
           \<lparr>Created = bad, State = \<lparr>StartedAt = good, FinishedAt = good\<rparr>\<rparr>)))) = Some e
       \<and> snd (snd (snd (fst (getContainerTimestamps P zero
           \<lparr>Created = good, State = \<lparr>StartedAt = bad, FinishedAt = good\<rparr>\<rparr>)))) = Some e"
  using assms
  by (auto simp add: getContainerTimestamps_def Let_def split: prod.splits)

text \<open>
  The definitions that the examples unfold.
\<close>

lemmas example_defs =
  fixedCollaborators_def serviceWith_def goQuote_def
  RemoveContainer_def removeContainerLogSymlink_def client_RemoveContainer_def
  performPlatformSpecificContainerForContainer_def
  performPlatformSpecificContainerCleanupAndLogErrors_def
  performPlatformSpecificContainerCleanup_def
  getContainerCleanupInfo_def setContainerCleanupInfo_def clearContainerCleanupInfo_def
  fmt_v_errors_def backendRemovals_def platformCleanups_def

section \<open>Properties of the registry\<close>

text \<open>
  C9. \<^verbatim>\<open>setContainerCleanupInfo\<close> replaces whatever the registry held for the ID: a
  \<^verbatim>\<open>getContainerCleanupInfo\<close> for the same ID afterwards returns the metadata just set
  and \<^verbatim>\<open>true\<close>, whatever the registry held before and whatever the metadata is (the
  nil pointer included).
\<close>

theorem set_then_get:
  "fst (getContainerCleanupInfo (setContainerCleanupInfo ds containerID info) containerID)
     = (info, True)"
  by (simp add: getContainerCleanupInfo_def setContainerCleanupInfo_def)

text \<open>
  C7. \<^verbatim>\<open>clearContainerCleanupInfo\<close> is idempotent. It has no error result; clearing an
  ID that the registry does not hold leaves the service as it was; clearing the same ID
  twice gives the state that clearing it once gives; afterwards the ID is absent and every
  other entry is what it was.
\<close>

theorem clear_idempotent:
  "(containerCleanupInfos ds containerID = None \<longrightarrow> clearContainerCleanupInfo ds containerID = ds)
   \<and> clearContainerCleanupInfo (clearContainerCleanupInfo ds containerID) containerID
       = clearContainerCleanupInfo ds containerID
   \<and> containerCleanupInfos (clearContainerCleanupInfo ds containerID) containerID = None
   \<and> (\<forall>other. other \<noteq> containerID \<longrightarrow>
         containerCleanupInfos (clearContainerCleanupInfo ds containerID) other
           = containerCleanupInfos ds other)"
proof -
  have "containerCleanupInfos ds containerID = None \<Longrightarrow>
          (containerCleanupInfos ds)(containerID := None) = containerCleanupInfos ds"
    by (rule ext) simp
  then show ?thesis
    by (simp add: clearContainerCleanupInfo_def)
qed

text \<open>
  An instance: a registry that holds \<open>def\<close> only; clearing \<open>ghi\<close> changes nothing, and
  clearing \<open>def\<close> once or twice removes it.
\<close>

theorem clear_idempotent_witness:
  "containerCleanupInfos (serviceWith ''def'' (Ptr 4096)) ''ghi'' = None
   \<and> clearContainerCleanupInfo (serviceWith ''def'' (Ptr 4096)) ''ghi'' = serviceWith ''def'' (Ptr 4096)
   \<and> clearContainerCleanupInfo (clearContainerCleanupInfo (serviceWith ''def'' (Ptr 4096)) ''def'')
         ''def''
       = clearContainerCleanupInfo (serviceWith ''def'' (Ptr 4096)) ''def''
   \<and> containerCleanupInfos (clearContainerCleanupInfo (serviceWith ''def'' (Ptr 4096)) ''def'')
         ''def'' = None
   \<and> containerCleanupInfos (clearContainerCleanupInfo (serviceWith ''def'' (Ptr 4096)) ''ghi'')
         ''def'' = Some (Ptr 4096)"
proof -
  let ?ds = "serviceWith ''def'' (Ptr 4096)"
  have h: "containerCleanupInfos ?ds ''ghi'' = None"
    by (simp add: serviceWith_def)
  have d: "''def'' \<noteq> ''ghi''" by simp
  have v: "containerCleanupInfos ?ds ''def'' = Some (Ptr 4096)"
    by (simp add: serviceWith_def)
  from clear_idempotent [of ?ds "''ghi''"] h
  have c1: "clearContainerCleanupInfo ?ds ''ghi'' = ?ds" by blast
  from clear_idempotent [of ?ds "''def''"]
  have c2: "clearContainerCleanupInfo (clearContainerCleanupInfo ?ds ''def'') ''def''
              = clearContainerCleanupInfo ?ds ''def''"
    and c3: "containerCleanupInfos (clearContainerCleanupInfo ?ds ''def'') ''def'' = None"
    by blast+
  from clear_idempotent [of ?ds "''ghi''"] d v
  have c4: "containerCleanupInfos (clearContainerCleanupInfo ?ds ''ghi'') ''def'' = Some (Ptr 4096)"
    by metis
  show ?thesis
    by (intro conjI h c1 c2 c3 c4)
qed

text \<open>
  C10. The registry operations touch one key. For distinct IDs \<open>a\<close> and \<open>b\<close>, setting or
  clearing \<open>a\<close> leaves the entry of \<open>b\<close> as it was, in the map and in what
  \<^verbatim>\<open>getContainerCleanupInfo\<close> returns for \<open>b\<close> (the value and the presence flag); and
  \<^verbatim>\<open>getContainerCleanupInfo\<close> for \<open>a\<close> returns the service unchanged.
\<close>

theorem registry_frame:
  assumes "a \<noteq> b"
  shows "containerCleanupInfos (setContainerCleanupInfo ds a info) b = containerCleanupInfos ds b
       \<and> containerCleanupInfos (clearContainerCleanupInfo ds a) b = containerCleanupInfos ds b
       \<and> fst (getContainerCleanupInfo (setContainerCleanupInfo ds a info) b)
           = fst (getContainerCleanupInfo ds b)
       \<and> fst (getContainerCleanupInfo (clearContainerCleanupInfo ds a) b)
           = fst (getContainerCleanupInfo ds b)
       \<and> snd (getContainerCleanupInfo ds a) = ds"
  using assms
  by (simp add: setContainerCleanupInfo_def clearContainerCleanupInfo_def
      getContainerCleanupInfo_def split: option.splits)

text \<open>
  An instance: the entry of \<open>def\<close> survives setting and clearing \<open>abc\<close>.
\<close>

theorem registry_frame_witness:
  "''abc'' \<noteq> ''def''
   \<and> containerCleanupInfos (setContainerCleanupInfo (serviceWith ''def'' (Ptr 4096)) ''abc'' (Ptr 8192))
         ''def'' = Some (Ptr 4096)
   \<and> containerCleanupInfos (clearContainerCleanupInfo (serviceWith ''def'' (Ptr 4096)) ''abc'')
         ''def'' = Some (Ptr 4096)
   \<and> fst (getContainerCleanupInfo
            (setContainerCleanupInfo (serviceWith ''def'' (Ptr 4096)) ''abc'' (Ptr 8192)) ''def'')
       = (Ptr 4096, True)
   \<and> fst (getContainerCleanupInfo
            (clearContainerCleanupInfo (serviceWith ''def'' (Ptr 4096)) ''abc'') ''def'')
       = (Ptr 4096, True)
   \<and> snd (getContainerCleanupInfo (serviceWith ''def'' (Ptr 4096)) ''abc'')
       = serviceWith ''def'' (Ptr 4096)"
proof -
  let ?ds = "serviceWith ''def'' (Ptr 4096)"
  have d: "''abc'' \<noteq> ''def''" by simp
  have v: "containerCleanupInfos ?ds ''def'' = Some (Ptr 4096)"
    by (simp add: serviceWith_def)
  have g: "fst (getContainerCleanupInfo ?ds ''def'') = (Ptr 4096, True)"
    by (simp add: serviceWith_def getContainerCleanupInfo_def)
  from registry_frame [OF d, of ?ds "Ptr 8192"] v g
  show ?thesis
    using d by simp
qed

section \<open>Properties of the platform cleanup step\<close>

text \<open>
  C6. \<^verbatim>\<open>performPlatformSpecificContainerCleanupAndLogErrors\<close> with nil metadata returns
  no errors and does nothing: the service afterwards is the service before (no call to the
  platform cleanup, no log line, the same registry), for every container identifier.
\<close>

theorem cleanup_with_nil_metadata_is_noop:
  "performPlatformSpecificContainerCleanupAndLogErrors C ds containerNameOrID nil = ([], ds)"
  by (simp add: performPlatformSpecificContainerCleanupAndLogErrors_def)

text \<open>
  C4. For a container ID that the registry does not hold,
  \<^verbatim>\<open>performPlatformSpecificContainerForContainer\<close> returns no errors and leaves the
  service exactly as it was: the registry is the same, and no event is added, so the
  platform cleanup is not called.
\<close>

theorem cleanup_of_unregistered_is_noop:
  assumes "containerCleanupInfos ds containerID = None"
  shows "performPlatformSpecificContainerForContainer C ds containerID = ([], ds)"
  using assms
  by (simp add: performPlatformSpecificContainerForContainer_def getContainerCleanupInfo_def)

text \<open>
  An instance: the registry holds \<open>def\<close>, the step runs for \<open>ghi\<close>, with a platform
  cleanup that would fail if it were called.
\<close>

theorem cleanup_of_unregistered_is_noop_witness:
  "containerCleanupInfos (serviceWith ''def'' (Ptr 4096)) ''ghi'' = None
   \<and> fst (performPlatformSpecificContainerForContainer
            (fixedCollaborators None [Error ''errA''] None) (serviceWith ''def'' (Ptr 4096)) ''ghi'')
       = []
   \<and> trace (snd (performPlatformSpecificContainerForContainer
                   (fixedCollaborators None [Error ''errA''] None)
                   (serviceWith ''def'' (Ptr 4096)) ''ghi''))
       = []
   \<and> containerCleanupInfos
         (snd (performPlatformSpecificContainerForContainer
                 (fixedCollaborators None [Error ''errA''] None)
                 (serviceWith ''def'' (Ptr 4096)) ''ghi'')) ''def''
       = Some (Ptr 4096)"
proof -
  let ?C = "fixedCollaborators None [Error ''errA''] None"
  let ?ds = "serviceWith ''def'' (Ptr 4096)"
  have h: "containerCleanupInfos ?ds ''ghi'' = None"
    by (simp add: serviceWith_def)
  note res = cleanup_of_unregistered_is_noop [OF h, of ?C]
  show ?thesis
    by (simp add: res) (simp add: serviceWith_def)
qed

text \<open>
  C1. For a container ID with a registry entry, after one run of
  \<^verbatim>\<open>performPlatformSpecificContainerForContainer\<close> the entry is absent if and only if
  the error collection of the cleanup is empty; when it is not empty the entry is still
  there with the same metadata. The error collection is the one the platform cleanup
  returns for the metadata, which is called whenever the metadata is not nil; for nil
  metadata nothing is called and the collection is empty.
\<close>

theorem cleanup_clears_entry_iff_no_errors:
  assumes "containerCleanupInfos ds containerID = Some info"
    and "performPlatformSpecificContainerForContainer C ds containerID = (errors, ds')"
  shows "(containerCleanupInfos ds' containerID = None \<longleftrightarrow> errors = [])
       \<and> (errors \<noteq> [] \<longrightarrow> containerCleanupInfos ds' containerID = Some info)
       \<and> (info \<noteq> nil \<longrightarrow> errors = fst (platformCleanup C info (world ds)))
       \<and> (info = nil \<longrightarrow> errors = [])"
proof -
  obtain es ds1 where
    r: "performPlatformSpecificContainerCleanupAndLogErrors C ds containerID info = (es, ds1)"
    by (cases "performPlatformSpecificContainerCleanupAndLogErrors C ds containerID info")
  from forContainer_present [OF assms(1) r] assms(2)
  have e: "errors = es"
    and d: "ds' = (if es = [] then clearContainerCleanupInfo ds1 containerID else ds1)"
    by simp_all
  from cleanupAndLog_registry [of C ds containerID info] r
  have reg: "containerCleanupInfos ds1 = containerCleanupInfos ds" by simp
  from cleanupAndLog_errors [of C ds containerID info] r
  have errs: "es = (if info = nil then [] else fst (platformCleanup C info (world ds)))" by simp
  show ?thesis
    using e d reg errs assms(1) by (simp add: clearContainerCleanupInfo_def)
qed

text \<open>
  Two instances on a registry that holds \<open>def\<close>: a platform cleanup that returns two
  errors keeps the entry, one that returns none removes it.
\<close>

theorem cleanup_clears_entry_iff_no_errors_witness:
  "containerCleanupInfos (serviceWith ''def'' (Ptr 4096)) ''def'' = Some (Ptr 4096)
   \<and> fst (performPlatformSpecificContainerForContainer
            (fixedCollaborators None [Error ''errA'', Error ''errB''] None)
            (serviceWith ''def'' (Ptr 4096)) ''def'') = [Error ''errA'', Error ''errB'']
   \<and> containerCleanupInfos
         (snd (performPlatformSpecificContainerForContainer
                 (fixedCollaborators None [Error ''errA'', Error ''errB''] None)
                 (serviceWith ''def'' (Ptr 4096)) ''def'')) ''def'' = Some (Ptr 4096)
   \<and> fst (performPlatformSpecificContainerForContainer
            (fixedCollaborators None [] None) (serviceWith ''def'' (Ptr 4096)) ''def'') = []
   \<and> containerCleanupInfos
         (snd (performPlatformSpecificContainerForContainer
                 (fixedCollaborators None [] None) (serviceWith ''def'' (Ptr 4096)) ''def''))
         ''def'' = None"
proof -
  let ?ds = "serviceWith ''def'' (Ptr 4096)"
  let ?bad = "fixedCollaborators None [Error ''errA'', Error ''errB''] None"
  let ?good = "fixedCollaborators None [] None"
  have reg: "containerCleanupInfos ?ds ''def'' = Some (Ptr 4096)"
    by (simp add: serviceWith_def)
  have e1: "fst (performPlatformSpecificContainerForContainer ?bad ?ds ''def'')
              = [Error ''errA'', Error ''errB'']"
    by (simp add: example_defs)
  have e2: "fst (performPlatformSpecificContainerForContainer ?good ?ds ''def'') = []"
    by (simp add: example_defs)
  from cleanup_clears_entry_iff_no_errors [OF reg surjective_pairing, of ?bad] e1
  have k1: "containerCleanupInfos
              (snd (performPlatformSpecificContainerForContainer ?bad ?ds ''def'')) ''def''
              = Some (Ptr 4096)"
    by simp
  from cleanup_clears_entry_iff_no_errors [OF reg surjective_pairing, of ?good] e2
  have k2: "containerCleanupInfos
              (snd (performPlatformSpecificContainerForContainer ?good ?ds ''def'')) ''def''
              = None"
    by simp
  show ?thesis
    by (intro conjI reg e1 e2 k1 k2)
qed

section \<open>Properties of \<^verbatim>\<open>RemoveContainer\<close>\<close>

text \<open>
  C3. If the removal of the log symlink returns an error, \<^verbatim>\<open>RemoveContainer\<close> returns
  that very error. The only event it adds is the call of the symlink remover: neither the
  platform cleanup nor the backend removal is called, and the registry is unchanged.
\<close>

theorem RemoveContainer_fails_on_symlink_error:
  assumes "logSymlinkRemover C (ContainerId r) (world ds) = (Some e, w)"
  shows "RemoveContainer C ds r =
           (Inl e, ds\<lparr>world := w,
                        trace := trace ds @ [CallRemoveContainerLogSymlink (ContainerId r)]\<rparr>)
       \<and> containerCleanupInfos (snd (RemoveContainer C ds r)) = containerCleanupInfos ds
       \<and> platformCleanups (trace (snd (RemoveContainer C ds r))) = platformCleanups (trace ds)
       \<and> backendRemovals (trace (snd (RemoveContainer C ds r))) = backendRemovals (trace ds)"
proof -
  have res: "RemoveContainer C ds r =
           (Inl e, ds\<lparr>world := w,
                        trace := trace ds @ [CallRemoveContainerLogSymlink (ContainerId r)]\<rparr>)"
    using assms by (simp add: RemoveContainer_def removeContainerLogSymlink_def)
  then show ?thesis
    by (simp add: platformCleanups_def backendRemovals_def)
qed

text \<open>
  An instance: the symlink remover answers \<open>permission denied\<close>.
\<close>

theorem RemoveContainer_fails_on_symlink_error_witness:
  "logSymlinkRemover (fixedCollaborators (Some (Error ''permission denied'')) [] None) ''def'' ()
     = (Some (Error ''permission denied''), ())
   \<and> fst (RemoveContainer (fixedCollaborators (Some (Error ''permission denied'')) [] None)
            (serviceWith ''def'' (Ptr 4096)) \<lparr>ContainerId = ''def''\<rparr>)
       = Inl (Error ''permission denied'')
   \<and> trace (snd (RemoveContainer (fixedCollaborators (Some (Error ''permission denied'')) [] None)
                   (serviceWith ''def'' (Ptr 4096)) \<lparr>ContainerId = ''def''\<rparr>))
       = [CallRemoveContainerLogSymlink ''def'']
   \<and> containerCleanupInfos
         (snd (RemoveContainer (fixedCollaborators (Some (Error ''permission denied'')) [] None)
                 (serviceWith ''def'' (Ptr 4096)) \<lparr>ContainerId = ''def''\<rparr>)) ''def''
       = Some (Ptr 4096)"
proof -
  let ?C = "fixedCollaborators (Some (Error ''permission denied'')) [] None"
  let ?ds = "serviceWith ''def'' (Ptr 4096)"
  let ?r = "\<lparr>ContainerId = ''def''\<rparr>"
  have h: "logSymlinkRemover ?C ''def'' () = (Some (Error ''permission denied''), ())"
    by (simp add: fixedCollaborators_def)
  then have h': "logSymlinkRemover ?C (ContainerId ?r) (world ?ds)
                   = (Some (Error ''permission denied''), ())"
    by (simp add: serviceWith_def)
  from RemoveContainer_fails_on_symlink_error [OF h']
  have res: "RemoveContainer ?C ?ds ?r =
           (Inl (Error ''permission denied''),
            ?ds\<lparr>world := (),
                 trace := trace ?ds @ [CallRemoveContainerLogSymlink (ContainerId ?r)]\<rparr>)"
    by blast
  have c1: "fst (RemoveContainer ?C ?ds ?r) = Inl (Error ''permission denied'')"
    by (simp add: res)
  have c2: "trace (snd (RemoveContainer ?C ?ds ?r)) = [CallRemoveContainerLogSymlink ''def'']"
    by (simp add: res) (simp add: serviceWith_def)
  have c3: "containerCleanupInfos (snd (RemoveContainer ?C ?ds ?r)) ''def'' = Some (Ptr 4096)"
    by (simp add: res) (simp add: serviceWith_def)
  show ?thesis
    by (intro conjI h c1 c2 c3)
qed

text \<open>
  C5. If the symlink is removed and the platform cleanup step returns no errors,
  \<^verbatim>\<open>RemoveContainer\<close> calls the backend removal exactly once, as its last event, for
  this container and with \<^verbatim>\<open>RemoveVolumes: true, Force: true\<close>. If the backend returns
  no error the result is the empty response; if it returns an error the result is an
  error whose message is \<^verbatim>\<open>failed to remove container\<close>, the quoted container ID and
  the text of the backend's error.
\<close>

theorem RemoveContainer_removes_from_backend:
  assumes "removeContainerLogSymlink C ds (ContainerId r) = (None, ds1)"
    and "performPlatformSpecificContainerForContainer C ds1 (ContainerId r) = ([], ds2)"
    and "backendRemoveContainer C (ContainerId r) \<lparr>RemoveVolumes = True, Force = True\<rparr>
           (world ds2) = (err, w)"
    and "RemoveContainer C ds r = (res, ds')"
  shows "ds' = ds2\<lparr>world := w,
                    trace := trace ds2 @ [CallClientRemoveContainer (ContainerId r)
                                           \<lparr>RemoveVolumes = True, Force = True\<rparr>]\<rparr>
       \<and> backendRemovals (trace ds') = Suc (backendRemovals (trace ds))
       \<and> (err = None \<longrightarrow> res = Inr RemoveContainerResponse)
       \<and> (\<forall>e. err = Some e \<longrightarrow>
             res = Inl (Error (''failed to remove container '' @ quote C (ContainerId r)
                                 @ '': '' @ Error_msg e)))"
proof -
  from removeContainerLogSymlink_backendRemovals [of C ds "ContainerId r"] assms(1)
  have b1: "backendRemovals (trace ds1) = backendRemovals (trace ds)" by simp
  from forContainer_backendRemovals [of C ds1 "ContainerId r"] assms(2)
  have b2: "backendRemovals (trace ds2) = backendRemovals (trace ds1)" by simp
  have st: "ds' = ds2\<lparr>world := w,
                    trace := trace ds2 @ [CallClientRemoveContainer (ContainerId r)
                                           \<lparr>RemoveVolumes = True, Force = True\<rparr>]\<rparr>"
    using assms by (simp add: RemoveContainer_def client_RemoveContainer_def split: option.splits)
  have cnt: "backendRemovals (trace ds') = Suc (backendRemovals (trace ds))"
    using b1 b2 by (simp add: st backendRemovals_def)
  have ok: "err = None \<longrightarrow> res = Inr RemoveContainerResponse"
    using assms by (auto simp add: RemoveContainer_def client_RemoveContainer_def)
  have ko: "\<forall>e. err = Some e \<longrightarrow>
             res = Inl (Error (''failed to remove container '' @ quote C (ContainerId r)
                                 @ '': '' @ Error_msg e))"
    using assms by (auto simp add: RemoveContainer_def client_RemoveContainer_def)
  show ?thesis
    by (intro conjI st cnt ok ko)
qed

text \<open>
  Two instances for container \<open>abc\<close>: the backend succeeds, and the backend answers
  \<open>No such container\<close>.
\<close>

theorem RemoveContainer_removes_from_backend_witness:
  "fst (RemoveContainer (fixedCollaborators None [] None) (serviceWith ''abc'' (Ptr 4096))
          \<lparr>ContainerId = ''abc''\<rparr>)
     = Inr RemoveContainerResponse
   \<and> trace (snd (RemoveContainer (fixedCollaborators None [] None) (serviceWith ''abc'' (Ptr 4096))
                   \<lparr>ContainerId = ''abc''\<rparr>))
       = [CallRemoveContainerLogSymlink ''abc'', CallPlatformCleanup (Ptr 4096),
          CallClientRemoveContainer ''abc'' \<lparr>RemoveVolumes = True, Force = True\<rparr>]
   \<and> backendRemovals
         (trace (snd (RemoveContainer (fixedCollaborators None [] None)
                        (serviceWith ''abc'' (Ptr 4096)) \<lparr>ContainerId = ''abc''\<rparr>))) = 1
   \<and> fst (RemoveContainer (fixedCollaborators None [] (Some (Error ''No such container'')))
            (serviceWith ''abc'' (Ptr 4096)) \<lparr>ContainerId = ''abc''\<rparr>)
       = Inl (Error ''failed to remove container \"abc\": No such container'')"
proof -
  let ?ok = "fixedCollaborators None [] None"
  let ?ko = "fixedCollaborators None [] (Some (Error ''No such container''))"
  let ?ds = "serviceWith ''abc'' (Ptr 4096)"
  let ?r = "\<lparr>ContainerId = ''abc''\<rparr>"
  let ?opts = "\<lparr>RemoveVolumes = True, Force = True\<rparr>"
  have s: "\<And>C. logSymlinkRemover C = (\<lambda>containerID w. (None, w)) \<Longrightarrow>
             removeContainerLogSymlink C ?ds (ContainerId ?r)
               = (None, snd (removeContainerLogSymlink C ?ds ''abc''))"
    by (simp add: removeContainerLogSymlink_def)
  have ok1: "removeContainerLogSymlink ?ok ?ds (ContainerId ?r)
               = (None, snd (removeContainerLogSymlink ?ok ?ds ''abc''))"
    by (rule s) (simp add: fixedCollaborators_def)
  have ko1: "removeContainerLogSymlink ?ko ?ds (ContainerId ?r)
               = (None, snd (removeContainerLogSymlink ?ko ?ds ''abc''))"
    by (rule s) (simp add: fixedCollaborators_def)
  have ok2: "performPlatformSpecificContainerForContainer ?ok
               (snd (removeContainerLogSymlink ?ok ?ds ''abc'')) (ContainerId ?r)
             = ([], snd (performPlatformSpecificContainerForContainer ?ok
                           (snd (removeContainerLogSymlink ?ok ?ds ''abc'')) ''abc''))"
    by (simp add: example_defs)
  have ko2: "performPlatformSpecificContainerForContainer ?ko
               (snd (removeContainerLogSymlink ?ko ?ds ''abc'')) (ContainerId ?r)
             = ([], snd (performPlatformSpecificContainerForContainer ?ko
                           (snd (removeContainerLogSymlink ?ko ?ds ''abc'')) ''abc''))"
    by (simp add: example_defs)
  have ok3: "backendRemoveContainer ?ok (ContainerId ?r) ?opts
               (world (snd (performPlatformSpecificContainerForContainer ?ok
                           (snd (removeContainerLogSymlink ?ok ?ds ''abc'')) ''abc'')))
             = (None, ())"
    by (simp add: fixedCollaborators_def)
  have ko3: "backendRemoveContainer ?ko (ContainerId ?r) ?opts
               (world (snd (performPlatformSpecificContainerForContainer ?ko
                           (snd (removeContainerLogSymlink ?ko ?ds ''abc'')) ''abc'')))
             = (Some (Error ''No such container''), ())"
    by (simp add: fixedCollaborators_def)
  note ok = RemoveContainer_removes_from_backend [OF ok1 ok2 ok3 surjective_pairing]
  note ko = RemoveContainer_removes_from_backend [OF ko1 ko2 ko3 surjective_pairing]
  have t2: "trace (snd (performPlatformSpecificContainerForContainer ?ok
                           (snd (removeContainerLogSymlink ?ok ?ds ''abc'')) ''abc''))
              = [CallRemoveContainerLogSymlink ''abc'', CallPlatformCleanup (Ptr 4096)]"
    by (simp add: example_defs)
  have t0: "backendRemovals (trace ?ds) = 0"
    by (simp add: serviceWith_def backendRemovals_def)
  from ok have c1: "fst (RemoveContainer ?ok ?ds ?r) = Inr RemoveContainerResponse"
    by simp
  from ok have "trace (snd (RemoveContainer ?ok ?ds ?r))
       = trace (snd (performPlatformSpecificContainerForContainer ?ok
                           (snd (removeContainerLogSymlink ?ok ?ds ''abc'')) ''abc''))
         @ [CallClientRemoveContainer ''abc'' ?opts]"
    by simp
  with t2 have c2: "trace (snd (RemoveContainer ?ok ?ds ?r))
       = [CallRemoveContainerLogSymlink ''abc'', CallPlatformCleanup (Ptr 4096),
          CallClientRemoveContainer ''abc'' ?opts]"
    by simp
  from ok [THEN conjunct2, THEN conjunct1] t0
  have c3: "backendRemovals (trace (snd (RemoveContainer ?ok ?ds ?r))) = 1"
    by simp
  have q: "quote ?ko ''abc'' = ''\"abc\"''"
    by (simp add: fixedCollaborators_def goQuote_def)
  from ko have "fst (RemoveContainer ?ko ?ds ?r)
       = Inl (Error (''failed to remove container '' @ quote ?ko (ContainerId ?r)
                                 @ '': '' @ Error_msg (Error ''No such container'')))"
    by simp
  with q have c4: "fst (RemoveContainer ?ko ?ds ?r)
       = Inl (Error ''failed to remove container \"abc\": No such container'')"
    by simp
  show ?thesis
    by (intro conjI c1 c2 c3 c4)
qed

section \<open>Properties of \<^verbatim>\<open>getContainerTimestamps\<close>\<close>

text \<open>
  C8, as the specification states it, says that the error of a failed extraction
  identifies the field that failed to parse. It does not: the function returns the
  parser's error as it is, and the parser sees the string only. Below, \<^verbatim>\<open>Created\<close> is
  malformed in the first record and \<^verbatim>\<open>State.StartedAt\<close> in the second, with the same
  string; the parser is called once in the first case and twice in the second, and the two
  errors are equal.
\<close>

theorem getContainerTimestamps_error_names_no_field:
  "snd (getContainerTimestamps (parseOnly ''2021-03-04T05:06:07Z'' 1614834367) 0
          \<lparr>Created = ''yesterday'',
           State = \<lparr>StartedAt = ''2021-03-04T05:06:07Z'', FinishedAt = ''2021-03-04T05:06:07Z''\<rparr>\<rparr>)
     = [''yesterday'']
   \<and> snd (getContainerTimestamps (parseOnly ''2021-03-04T05:06:07Z'' 1614834367) 0
          \<lparr>Created = ''2021-03-04T05:06:07Z'',
           State = \<lparr>StartedAt = ''yesterday'', FinishedAt = ''2021-03-04T05:06:07Z''\<rparr>\<rparr>)
     = [''2021-03-04T05:06:07Z'', ''yesterday'']
   \<and> snd (snd (snd (fst (getContainerTimestamps (parseOnly ''2021-03-04T05:06:07Z'' 1614834367) 0
          \<lparr>Created = ''yesterday'',
           State = \<lparr>StartedAt = ''2021-03-04T05:06:07Z'', FinishedAt = ''2021-03-04T05:06:07Z''\<rparr>\<rparr>))))
     = snd (snd (snd (fst (getContainerTimestamps (parseOnly ''2021-03-04T05:06:07Z'' 1614834367) 0
          \<lparr>Created = ''2021-03-04T05:06:07Z'',
           State = \<lparr>StartedAt = ''yesterday'', FinishedAt = ''2021-03-04T05:06:07Z''\<rparr>\<rparr>))))
   \<and> snd (snd (snd (fst (getContainerTimestamps (parseOnly ''2021-03-04T05:06:07Z'' 1614834367) 0
          \<lparr>Created = ''yesterday'',
           State = \<lparr>StartedAt = ''2021-03-04T05:06:07Z'', FinishedAt = ''2021-03-04T05:06:07Z''\<rparr>\<rparr>))))
     = Some (Error ''cannot parse \"yesterday\"'')"
  by (simp add: getContainerTimestamps_def parseOnly_def goQuote_def)

text \<open>
  C8, amended. \<^verbatim>\<open>getContainerTimestamps\<close> parses \<^verbatim>\<open>Created\<close>, then
  \<^verbatim>\<open>State.StartedAt\<close>, then \<^verbatim>\<open>State.FinishedAt\<close>, and stops at the first failure:
  the strings parsed are a non-empty prefix of the three, every one but the last parsed
  without error, and the error returned is the parser's result for the last one, unchanged
  (nil only when all three were parsed). \<^verbatim>\<open>createdAt\<close> is what the parser returned for
  \<^verbatim>\<open>Created\<close>; a field that was not parsed is returned as the zero time.
\<close>

theorem getContainerTimestamps_stops_at_first_failure:
  assumes "getContainerTimestamps P zero r = ((createdAt, startedAt, finishedAt, err), parsed)"
  shows "prefix parsed [Created r, StartedAt (State r), FinishedAt (State r)]
       \<and> parsed \<noteq> []
       \<and> err = snd (P (last parsed))
       \<and> (\<forall>s \<in> set (butlast parsed). snd (P s) = None)
       \<and> (err = None \<longrightarrow> length parsed = 3)
       \<and> createdAt = fst (P (Created r))
       \<and> startedAt = (if 2 \<le> length parsed then fst (P (StartedAt (State r))) else zero)
       \<and> finishedAt = (if 3 \<le> length parsed then fst (P (FinishedAt (State r))) else zero)"
proof (cases "snd (P (Created r)) = None")
  case False
  with assms show ?thesis
    by (auto simp: getContainerTimestamps_def split: prod.splits)
next
  case c: True
  show ?thesis
  proof (cases "snd (P (StartedAt (State r))) = None")
    case False
    with c assms show ?thesis
      by (auto simp: getContainerTimestamps_def split: prod.splits)
  next
    case True
    with c assms show ?thesis
      by (auto simp: getContainerTimestamps_def Let_def split: prod.splits if_splits)
  qed
qed

text \<open>
  An instance: \<^verbatim>\<open>State.StartedAt\<close> is malformed, so \<^verbatim>\<open>State.FinishedAt\<close> (malformed
  too) is never given to the parser.
\<close>

theorem getContainerTimestamps_stops_at_first_failure_witness:
  "getContainerTimestamps (parseOnly ''2021-03-04T05:06:07Z'' 1614834367) 0
       \<lparr>Created = ''2021-03-04T05:06:07Z'',
        State = \<lparr>StartedAt = ''yesterday'', FinishedAt = ''tomorrow''\<rparr>\<rparr>
     = ((1614834367, 0, 0, Some (Error ''cannot parse \"yesterday\"'')),
        [''2021-03-04T05:06:07Z'', ''yesterday''])
   \<and> prefix [''2021-03-04T05:06:07Z'', ''yesterday'']
        [''2021-03-04T05:06:07Z'', ''yesterday'', ''tomorrow'']
   \<and> snd (parseOnly ''2021-03-04T05:06:07Z'' 1614834367 ''yesterday'')
       = Some (Error ''cannot parse \"yesterday\"'')
   \<and> snd (parseOnly ''2021-03-04T05:06:07Z'' 1614834367 ''2021-03-04T05:06:07Z'') = None"
proof -
  let ?P = "parseOnly ''2021-03-04T05:06:07Z'' 1614834367"
  let ?r = "\<lparr>Created = ''2021-03-04T05:06:07Z'',
            State = \<lparr>StartedAt = ''yesterday'', FinishedAt = ''tomorrow''\<rparr>\<rparr>"
  have h: "getContainerTimestamps ?P 0 ?r
     = ((1614834367, 0, 0, Some (Error ''cannot parse \"yesterday\"'')),
        [''2021-03-04T05:06:07Z'', ''yesterday''])"
    by (simp add: getContainerTimestamps_def parseOnly_def goQuote_def)
  from getContainerTimestamps_stops_at_first_failure [OF h]
  show ?thesis
    using h by simp
qed

end
